theory Spec2Isabelle
  imports Complex_Main "HOL-Library.AList"
begin

section \<open>Voxel worlds of DeepSeek.py and StableDiffusion.py\<close>

text \<open>
  Two independent scripts keep a sparse map from integer positions to block types:
  \<^item> \<open>World\<close> of DeepSeek.py, which maintains \<open>visible_blocks\<close> incrementally in
    \<open>add_block\<close> and \<open>remove_block\<close>;
  \<^item> \<open>StableDiffusionWorld\<close> of StableDiffusion.py, which recomputes
    \<open>visible_blocks\<close> from scratch in \<open>rebuild_batch\<close>.
  Python exceptions are values of \<open>py_error\<close>; a method that mutates \<open>self\<close> returns the
  outcome together with the state it leaves behind, since an exception raised half way
  does not undo the assignments made before it.
\<close>

subsection \<open>Common data\<close>

type_synonym position = "int \<times> int \<times> int"

type_synonym block_type = string

datatype py_error = TypeError | KeyError | ValueError | OverflowError | ZeroDivisionError

text \<open>
  The handle that \<open>batch.add\<close> returns. The rendering library is outside the source; a
  vertex list is identified by the data it was created from: the position (which fixes
  the vertices) and the block type (which fixes the texture coordinates or colours).
\<close>

type_synonym vertex_list = "position \<times> block_type"

subsection \<open>DeepSeek.py: \<open>FACE_VECTORS\<close>\<close>

text \<open>
  \<open>FACE_VECTORS\<close> has seven entries. The first six are triples of integers; the seventh
  is a triple of triples. The loop header \<open>for dx, dy, dz in FACE_VECTORS\<close> unpacks every
  entry into three components, so a component is either an integer or a tuple.
\<close>

datatype component = Num int | Tup "int \<times> int \<times> int"

type_synonym face_vector = "component \<times> component \<times> component"

definition FACE_VECTORS :: "face_vector list" where
  "FACE_VECTORS =
     [(Num 1, Num 0, Num 0),
      (Num 0, Num 1, Num 0),
      (Num 0, Num 0, Num 1),
      (Num 0, Num 0, Num (- 1)),
      (Num 0, Num (- 1), Num 0),
      (Num (- 1), Num 0, Num 0),
      (Tup (1, 1, 1), Tup (1, - 1, 1), Tup (- 1, 1, - 1))]"

text \<open>\<open>x + dx\<close> for an integer \<open>x\<close>: adding a tuple to an integer raises \<open>TypeError\<close>.\<close>

fun py_add :: "int \<Rightarrow> component \<Rightarrow> py_error + int" where
  "py_add x (Num d) = Inr (x + d)"
| "py_add x (Tup t) = Inl TypeError"

text \<open>The tuple display \<open>(x+dx, y+dy, z+dz)\<close>, evaluated from left to right.\<close>

fun neighbor_of :: "position \<Rightarrow> face_vector \<Rightarrow> py_error + position" where
  "neighbor_of (x, y, z) (dx, dy, dz) =
     (case py_add x dx of
        Inl e \<Rightarrow> Inl e
      | Inr x' \<Rightarrow>
          (case py_add y dy of
             Inl e \<Rightarrow> Inl e
           | Inr y' \<Rightarrow>
               (case py_add z dz of
                  Inl e \<Rightarrow> Inl e
                | Inr z' \<Rightarrow> Inr (x', y', z'))))"

subsection \<open>DeepSeek.py: class \<open>World\<close>\<close>

record world =
  blocks :: "position \<rightharpoonup> block_type"
  visible_blocks :: "position \<rightharpoonup> vertex_list"
  batch :: "vertex_list set"

text \<open>The fields as \<open>__init__\<close> sets them before it calls \<open>build_world\<close>.\<close>

definition empty_world :: world where
  "empty_world = \<lparr>blocks = Map.empty, visible_blocks = Map.empty, batch = {}\<rparr>"

text \<open>\<open>World.is_visible\<close>: the loop over \<open>FACE_VECTORS\<close>, then the method.\<close>

fun is_visible_loop ::
  "(position \<rightharpoonup> block_type) \<Rightarrow> position \<Rightarrow> face_vector list \<Rightarrow> py_error + bool" where
  "is_visible_loop b p [] = Inr False"
| "is_visible_loop b p (f # fs) =
     (case neighbor_of p f of
        Inl e \<Rightarrow> Inl e
      | Inr n \<Rightarrow> if b n = None then Inr True else is_visible_loop b p fs)"

definition is_visible :: "world \<Rightarrow> position \<Rightarrow> py_error + bool" where
  "is_visible w p = is_visible_loop (blocks w) p FACE_VECTORS"

text \<open>\<open>World.make_visible\<close>: \<open>self.blocks[position]\<close> raises \<open>KeyError\<close> on a missing key.\<close>

definition make_visible :: "world \<Rightarrow> position \<Rightarrow> (py_error + unit) \<times> world" where
  "make_visible w p =
     (if visible_blocks w p \<noteq> None then (Inr (), w)
      else
        (case blocks w p of
           None \<Rightarrow> (Inl KeyError, w)
         | Some block_type \<Rightarrow>
             (Inr (),
              w\<lparr>visible_blocks := (visible_blocks w)(p \<mapsto> (p, block_type)),
                batch := insert (p, block_type) (batch w)\<rparr>)))"

text \<open>\<open>World.make_hidden\<close>\<close>

definition make_hidden :: "world \<Rightarrow> position \<Rightarrow> world" where
  "make_hidden w p =
     (case visible_blocks w p of
        None \<Rightarrow> w
      | Some vl \<Rightarrow>
          w\<lparr>visible_blocks := (visible_blocks w)(p := None), batch := batch w - {vl}\<rparr>)"

text \<open>The neighbour loop of \<open>World.add_block\<close>.\<close>

fun add_block_loop ::
  "world \<Rightarrow> position \<Rightarrow> face_vector list \<Rightarrow> (py_error + unit) \<times> world" where
  "add_block_loop w p [] = (Inr (), w)"
| "add_block_loop w p (f # fs) =
     (case neighbor_of p f of
        Inl e \<Rightarrow> (Inl e, w)
      | Inr n \<Rightarrow>
          if blocks w n \<noteq> None \<and> visible_blocks w n \<noteq> None then
            (case is_visible w n of
               Inl e \<Rightarrow> (Inl e, w)
             | Inr v \<Rightarrow>
                 if \<not> v then add_block_loop (make_hidden w n) p fs
                 else add_block_loop w p fs)
          else if blocks w n \<noteq> None \<and> visible_blocks w n = None then
            (case is_visible w n of
               Inl e \<Rightarrow> (Inl e, w)
             | Inr v \<Rightarrow>
                 if v then
                   (case make_visible w n of
                      (Inl e, w') \<Rightarrow> (Inl e, w')
                    | (Inr u, w') \<Rightarrow> add_block_loop w' p fs)
                 else add_block_loop w p fs)
          else add_block_loop w p fs)"

text \<open>\<open>World.add_block\<close>\<close>

definition add_block :: "world \<Rightarrow> position \<Rightarrow> block_type \<Rightarrow> (py_error + unit) \<times> world" where
  "add_block w p block_type =
     (if blocks w p \<noteq> None then (Inr (), w)
      else
        let w1 = w\<lparr>blocks := (blocks w)(p \<mapsto> block_type)\<rparr> in
        (case is_visible w1 p of
           Inl e \<Rightarrow> (Inl e, w1)
         | Inr v \<Rightarrow>
             (case (if v then make_visible w1 p else (Inr (), w1)) of
                (Inl e, w2) \<Rightarrow> (Inl e, w2)
              | (Inr u, w2) \<Rightarrow> add_block_loop w2 p FACE_VECTORS)))"

text \<open>The neighbour loop of \<open>World.remove_block\<close>.\<close>

fun remove_block_loop ::
  "world \<Rightarrow> position \<Rightarrow> face_vector list \<Rightarrow> (py_error + unit) \<times> world" where
  "remove_block_loop w p [] = (Inr (), w)"
| "remove_block_loop w p (f # fs) =
     (case neighbor_of p f of
        Inl e \<Rightarrow> (Inl e, w)
      | Inr n \<Rightarrow>
          if blocks w n \<noteq> None \<and> visible_blocks w n = None then
            (case is_visible w n of
               Inl e \<Rightarrow> (Inl e, w)
             | Inr v \<Rightarrow>
                 if v then
                   (case make_visible w n of
                      (Inl e, w') \<Rightarrow> (Inl e, w')
                    | (Inr u, w') \<Rightarrow> remove_block_loop w' p fs)
                 else remove_block_loop w p fs)
          else remove_block_loop w p fs)"

text \<open>\<open>World.remove_block\<close>\<close>

definition remove_block :: "world \<Rightarrow> position \<Rightarrow> (py_error + unit) \<times> world" where
  "remove_block w p =
     (if blocks w p \<noteq> None then
        let w1 = w\<lparr>blocks := (blocks w)(p := None)\<rparr>;
            w2 = (if visible_blocks w1 p \<noteq> None then make_hidden w1 p else w1)
        in remove_block_loop w2 p FACE_VECTORS
      else (Inr (), w))"

text \<open>\<open>World.is_block_at\<close>\<close>

definition is_block_at :: "world \<Rightarrow> position \<Rightarrow> bool" where
  "is_block_at w pos = (blocks w pos \<noteq> None)"

text \<open>
  A sequence of calls on one \<open>World\<close>. An exception that no caller catches ends the
  sequence; the state at that moment is returned with it.
\<close>

datatype world_op = Add position block_type | Remove position

fun run_op :: "world \<Rightarrow> world_op \<Rightarrow> (py_error + unit) \<times> world" where
  "run_op w (Add p t) = add_block w p t"
| "run_op w (Remove p) = remove_block w p"

fun run_ops :: "world \<Rightarrow> world_op list \<Rightarrow> (py_error + unit) \<times> world" where
  "run_ops w [] = (Inr (), w)"
| "run_ops w (c # cs) =
     (case run_op w c of
        (Inl e, w') \<Rightarrow> (Inl e, w')
      | (Inr u, w') \<Rightarrow> run_ops w' cs)"

subsection \<open>StableDiffusion.py: class \<open>StableDiffusionWorld\<close>\<close>

text \<open>
  \<open>rebuild_batch\<close> iterates over \<open>self.blocks.items()\<close>, so the dictionary keeps its
  insertion order here: an association list, updated in place or extended at the end
  by \<open>AList.update\<close>, as a Python \<open>dict\<close> is by assignment.
\<close>

record sd_world =
  sd_blocks :: "(position \<times> block_type) list"
  sd_visible_blocks :: "position \<rightharpoonup> vertex_list"
  sd_batch :: "vertex_list set"

text \<open>\<open>StableDiffusionWorld.is_exposed\<close>: the list \<open>neighbors\<close> and the loop over it.\<close>

fun neighbors :: "position \<Rightarrow> position list" where
  "neighbors (x, y, z) =
     [(x + 1, y, z), (x - 1, y, z),
      (x, y + 1, z), (x, y - 1, z),
      (x, y, z + 1), (x, y, z - 1)]"

fun is_exposed_loop :: "(position \<times> block_type) list \<Rightarrow> position list \<Rightarrow> bool" where
  "is_exposed_loop b [] = False"
| "is_exposed_loop b (n # ns) = (if map_of b n = None then True else is_exposed_loop b ns)"

definition is_exposed :: "sd_world \<Rightarrow> position \<Rightarrow> bool" where
  "is_exposed w pos = is_exposed_loop (sd_blocks w) (neighbors pos)"

text \<open>\<open>StableDiffusionWorld.add_block\<close> and \<open>remove_block\<close>\<close>

definition sd_add_block :: "sd_world \<Rightarrow> position \<Rightarrow> block_type \<Rightarrow> sd_world" where
  "sd_add_block w pos block_type = w\<lparr>sd_blocks := AList.update pos block_type (sd_blocks w)\<rparr>"

definition sd_remove_block :: "sd_world \<Rightarrow> position \<Rightarrow> sd_world" where
  "sd_remove_block w pos =
     (if map_of (sd_blocks w) pos \<noteq> None
      then w\<lparr>sd_blocks := AList.delete pos (sd_blocks w)\<rparr>
      else w)"

section \<open>Python floats and the ray march\<close>

subsection \<open>Floats\<close>

text \<open>
  \<open>raycast\<close> and \<open>rebuild_batch\<close> compute with Python floats, which are IEEE 754 binary64
  numbers. A finite float is modelled by the rational number it denotes; every
  arithmetic operation computes the exact rational result and rounds it to the nearest
  binary64 number, ties to even (\<open>to_double\<close>), overflowing to an infinity. The sign of
  zero is not kept: no operation used here (\<open>+\<close>, \<open>-\<close>, \<open>*\<close>, division by the non-zero
  constant \<open>0.1\<close>, \<open>abs\<close>, \<open><\<close>, \<open>round\<close>, \<open>int\<close>) can tell the two zeros apart.
  A numeric argument that is a Python \<open>int\<close> of magnitude at most \<open>2^53\<close> behaves in
  all these operations as the float of the same value, and is passed as that float.
\<close>

datatype pyfloat = Fin rat | PInf | NInf | NaN

text \<open>\<open>ilog2 n\<close> is \<open>\<lfloor>log\<^sub>2 n\<rfloor>\<close> for \<open>n \<ge> 1\<close>; \<open>pow2 e\<close> is \<open>2\<^sup>e\<close>.\<close>

function ilog2 :: "int \<Rightarrow> int" where
  "ilog2 n = (if n < 2 then 0 else 1 + ilog2 (n div 2))"
  by pat_completeness auto
termination
  by (relation "measure nat") auto

declare ilog2.simps [simp del]

function pow2_nat :: "int \<Rightarrow> rat" where
  "pow2_nat n =
     (if n \<le> 0 then 1
      else let h = pow2_nat (n div 2) in if even n then h * h else 2 * h * h)"
  by pat_completeness auto
termination
  by (relation "measure nat") auto

declare pow2_nat.simps [simp del]

definition pow2 :: "int \<Rightarrow> rat" where
  "pow2 e = (if 0 \<le> e then pow2_nat e else 1 / pow2_nat (- e))"

text \<open>The binary exponent \<open>\<lfloor>log\<^sub>2 r\<rfloor>\<close> of a positive rational.\<close>

definition exponent_of :: "rat \<Rightarrow> int" where
  "exponent_of r =
     (if 1 \<le> r then ilog2 \<lfloor>r\<rfloor>
      else - (1 + ilog2 (\<lceil>1 / r\<rceil> - 1)))"

text \<open>Rounding to the nearest integer, ties to the even one: Python's \<open>round(x)\<close>.\<close>

definition round_half_even :: "rat \<Rightarrow> int" where
  "round_half_even r =
     (let f = \<lfloor>r\<rfloor>; d = r - of_int f
      in if d < 1 / 2 then f
         else if 1 / 2 < d then f + 1
         else if even f then f else f + 1)"

text \<open>
  Rounding a rational to binary64: 53 significant bits, the exponent of the leading bit
  at least \<open>-1022\<close> (below that the spacing stays \<open>pow2 (-1074)\<close>), and an infinity when the
  rounded value needs an exponent above 1023.
\<close>

definition to_double :: "rat \<Rightarrow> pyfloat" where
  "to_double r =
     (if r = 0 then Fin 0
      else
        let e = max (exponent_of \<bar>r\<bar>) (- 1022);
            q = pow2 (e - 52);
            v = of_int (round_half_even (r / q)) * q
        in if 1024 \<le> exponent_of \<bar>v\<bar> then (if 0 < r then PInf else NInf) else Fin v)"

fun fneg :: "pyfloat \<Rightarrow> pyfloat" where
  "fneg (Fin a) = Fin (- a)"
| "fneg PInf = NInf"
| "fneg NInf = PInf"
| "fneg NaN = NaN"

fun fabs :: "pyfloat \<Rightarrow> pyfloat" where
  "fabs (Fin a) = Fin \<bar>a\<bar>"
| "fabs PInf = PInf"
| "fabs NInf = PInf"
| "fabs NaN = NaN"

fun fadd :: "pyfloat \<Rightarrow> pyfloat \<Rightarrow> pyfloat" where
  "fadd (Fin a) (Fin b) = to_double (a + b)"
| "fadd NaN y = NaN"
| "fadd x NaN = NaN"
| "fadd PInf NInf = NaN"
| "fadd NInf PInf = NaN"
| "fadd PInf y = PInf"
| "fadd NInf y = NInf"
| "fadd (Fin a) y = y"

definition fsub :: "pyfloat \<Rightarrow> pyfloat \<Rightarrow> pyfloat" where
  "fsub x y = fadd x (fneg y)"

fun fmul :: "pyfloat \<Rightarrow> pyfloat \<Rightarrow> pyfloat" where
  "fmul (Fin a) (Fin b) = to_double (a * b)"
| "fmul NaN y = NaN"
| "fmul x NaN = NaN"
| "fmul (Fin a) y = (if a = 0 then NaN else if 0 < a then y else fneg y)"
| "fmul x (Fin b) = (if b = 0 then NaN else if 0 < b then x else fneg x)"
| "fmul PInf y = y"
| "fmul NInf y = fneg y"

text \<open>Float division raises \<open>ZeroDivisionError\<close> on a zero divisor.\<close>

fun fdiv :: "pyfloat \<Rightarrow> pyfloat \<Rightarrow> py_error + pyfloat" where
  "fdiv x (Fin b) =
     (if b = 0 then Inl ZeroDivisionError
      else
        (case x of
           Fin a \<Rightarrow> Inr (to_double (a / b))
         | NaN \<Rightarrow> Inr NaN
         | _ \<Rightarrow> Inr (if 0 < b then x else fneg x)))"
| "fdiv x NaN = Inr NaN"
| "fdiv (Fin a) y = Inr (Fin 0)"
| "fdiv x y = Inr NaN"

text \<open>\<open>x < n\<close> for a float \<open>x\<close> and an integer \<open>n\<close>: Python compares the exact values.\<close>

fun flt_int :: "pyfloat \<Rightarrow> int \<Rightarrow> bool" where
  "flt_int (Fin a) n = (a < of_int n)"
| "flt_int NInf n = True"
| "flt_int PInf n = False"
| "flt_int NaN n = False"

text \<open>
  \<open>int(round(x))\<close> and \<open>int(x)\<close>: an infinity raises \<open>OverflowError\<close>, a NaN raises
  \<open>ValueError\<close>; \<open>int\<close> truncates towards zero.
\<close>

fun py_int_round :: "pyfloat \<Rightarrow> py_error + int" where
  "py_int_round (Fin r) = Inr (round_half_even r)"
| "py_int_round NaN = Inl ValueError"
| "py_int_round x = Inl OverflowError"

fun py_int :: "pyfloat \<Rightarrow> py_error + int" where
  "py_int (Fin r) = Inr (if 0 \<le> r then \<lfloor>r\<rfloor> else \<lceil>r\<rceil>)"
| "py_int NaN = Inl ValueError"
| "py_int x = Inl OverflowError"

text \<open>
  The conversion Python applies to the \<open>int\<close> operand of a mixed \<open>int - float\<close>: it raises
  \<open>OverflowError\<close> when the integer is too large for a float.
\<close>

definition int_to_float :: "int \<Rightarrow> py_error + pyfloat" where
  "int_to_float n =
     (case to_double (of_int n) of
        Fin r \<Rightarrow> Inr (Fin r)
      | _ \<Rightarrow> Inl OverflowError)"

text \<open>A rational that is a binary64 number: rounding leaves it as it is.\<close>

definition is_double :: "rat \<Rightarrow> bool" where
  "is_double r = (to_double r = Fin r)"

subsection \<open>\<open>World.raycast\<close> and \<open>StableCraftWindow.raycast\<close>\<close>

text \<open>The literal \<open>0.1\<close>: the binary64 number nearest to one tenth.\<close>

definition step_size :: pyfloat where
  "step_size = Fin (3602879701896397 / 36028797018963968)"

type_synonym vec3 = "pyfloat \<times> pyfloat \<times> pyfloat"

text \<open>The tuple \<open>(int(round(c[0])), int(round(c[1])), int(round(c[2])))\<close>.\<close>

fun round_position :: "vec3 \<Rightarrow> py_error + position" where
  "round_position (cx, cy, cz) =
     (case py_int_round cx of
        Inl e \<Rightarrow> Inl e
      | Inr x \<Rightarrow>
          (case py_int_round cy of
             Inl e \<Rightarrow> Inl e
           | Inr y \<Rightarrow>
               (case py_int_round cz of
                  Inl e \<Rightarrow> Inl e
                | Inr z \<Rightarrow> Inr (x, y, z))))"

text \<open>\<open>current[i] - direction[i] * step_size\<close> and \<open>current[i] += direction[i] * step_size\<close>.\<close>

fun step_back :: "vec3 \<Rightarrow> vec3 \<Rightarrow> vec3" where
  "step_back (cx, cy, cz) (dx, dy, dz) =
     (fsub cx (fmul dx step_size), fsub cy (fmul dy step_size), fsub cz (fmul dz step_size))"

fun step_forward :: "vec3 \<Rightarrow> vec3 \<Rightarrow> vec3" where
  "step_forward (cx, cy, cz) (dx, dy, dz) =
     (fadd cx (fmul dx step_size), fadd cy (fmul dy step_size), fadd cz (fmul dz step_size))"

text \<open>
  The two \<open>raycast\<close> methods have the same body, up to the names of two local variables
  and the dictionary they look up (\<open>self.blocks\<close>, \<open>self.world.blocks\<close>). The loop runs
  over the remaining number of iterations.
\<close>

fun raycast_loop ::
  "(position \<rightharpoonup> block_type) \<Rightarrow> vec3 \<Rightarrow> vec3 \<Rightarrow> nat \<Rightarrow>
     py_error + (position option \<times> position option)" where
  "raycast_loop b current direction 0 = Inr (None, None)"
| "raycast_loop b current direction (Suc n) =
     (case round_position current of
        Inl e \<Rightarrow> Inl e
      | Inr block_pos \<Rightarrow>
          if b block_pos \<noteq> None then
            (case round_position (step_back current direction) of
               Inl e \<Rightarrow> Inl e
             | Inr prev \<Rightarrow> Inr (Some block_pos, Some prev))
          else raycast_loop b (step_forward current direction) direction n)"

text \<open>\<open>range(int(max_distance / step_size))\<close>: the number of iterations.\<close>

definition range_count :: "pyfloat \<Rightarrow> py_error + nat" where
  "range_count max_distance =
     (case fdiv max_distance step_size of
        Inl e \<Rightarrow> Inl e
      | Inr q \<Rightarrow> (case py_int q of Inl e \<Rightarrow> Inl e | Inr n \<Rightarrow> Inr (nat n)))"

definition raycast_blocks ::
  "(position \<rightharpoonup> block_type) \<Rightarrow> vec3 \<Rightarrow> vec3 \<Rightarrow> pyfloat \<Rightarrow>
     py_error + (position option \<times> position option)" where
  "raycast_blocks b start direction max_distance =
     (case range_count max_distance of
        Inl e \<Rightarrow> Inl e
      | Inr n \<Rightarrow> raycast_loop b start direction n)"

definition raycast ::
  "world \<Rightarrow> vec3 \<Rightarrow> vec3 \<Rightarrow> pyfloat \<Rightarrow> py_error + (position option \<times> position option)" where
  "raycast w start direction max_distance =
     raycast_blocks (blocks w) start direction max_distance"

definition sd_raycast ::
  "sd_world \<Rightarrow> vec3 \<Rightarrow> vec3 \<Rightarrow> pyfloat \<Rightarrow> py_error + (position option \<times> position option)" where
  "sd_raycast w start direction max_distance =
     raycast_blocks (map_of (sd_blocks w)) start direction max_distance"

text \<open>
  The position the march has reached after \<open>k\<close> steps: what \<open>current\<close> holds at the start
  of iteration \<open>k\<close>.
\<close>

fun marched :: "vec3 \<Rightarrow> vec3 \<Rightarrow> nat \<Rightarrow> vec3" where
  "marched current direction 0 = current"
| "marched current direction (Suc k) = marched (step_forward current direction) direction k"

subsection \<open>\<open>StableDiffusionWorld.rebuild_batch\<close>\<close>

text \<open>\<open>RENDER_DISTANCE * CHUNK_s\<close>, with \<open>RENDER_DISTANCE = 4\<close> and \<open>CHUNK_s = 16\<close>.\<close>

definition render_sq :: int where
  "render_sq = 4 * 16"

text \<open>\<open>abs(x - px) < render_sq\<close> for a block coordinate \<open>x\<close> and a player coordinate \<open>px\<close>.\<close>

definition within_render :: "int \<Rightarrow> pyfloat \<Rightarrow> py_error + bool" where
  "within_render x px =
     (case int_to_float x of
        Inl e \<Rightarrow> Inl e
      | Inr fx \<Rightarrow> Inr (flt_int (fabs (fsub fx px)) render_sq))"

text \<open>The loop over \<open>list(self.blocks.items())\<close>; \<open>and\<close> evaluates its right side on demand.\<close>

fun rebuild_batch_loop ::
  "sd_world \<Rightarrow> pyfloat \<Rightarrow> pyfloat \<Rightarrow> (position \<times> block_type) list \<Rightarrow>
     (py_error + unit) \<times> sd_world" where
  "rebuild_batch_loop w px pz [] = (Inr (), w)"
| "rebuild_batch_loop w px pz (((x, y, z), block_type) # items) =
     (case within_render x px of
        Inl e \<Rightarrow> (Inl e, w)
      | Inr near_x \<Rightarrow>
          if near_x then
            (case within_render z pz of
               Inl e \<Rightarrow> (Inl e, w)
             | Inr near_z \<Rightarrow>
                 if near_z then
                   if is_exposed w (x, y, z) then
                     rebuild_batch_loop
                       (w\<lparr>sd_visible_blocks :=
                            (sd_visible_blocks w)((x, y, z) \<mapsto> ((x, y, z), block_type)),
                          sd_batch := insert ((x, y, z), block_type) (sd_batch w)\<rparr>)
                       px pz items
                   else rebuild_batch_loop w px pz items
                 else rebuild_batch_loop w px pz items)
          else rebuild_batch_loop w px pz items)"

definition rebuild_batch :: "sd_world \<Rightarrow> vec3 \<Rightarrow> (py_error + unit) \<times> sd_world" where
  "rebuild_batch w player_pos =
     (case player_pos of
        (px, py, pz) \<Rightarrow>
          rebuild_batch_loop
            (w\<lparr>sd_batch := {}, sd_visible_blocks := Map.empty\<rparr>) px pz (sd_blocks w))"

section \<open>Reference notions and concrete states\<close>

subsection \<open>The exposure predicate in the words of the specification\<close>

text \<open>
  "True iff \<open>pos\<close> is occupied and at least one of its 6 axis-aligned neighbors is absent
  from the map", over the occupancy test of either world.
\<close>

definition spec_isExposed :: "(position \<Rightarrow> bool) \<Rightarrow> position \<Rightarrow> bool" where
  "spec_isExposed occupied p = (occupied p \<and> (\<exists>n \<in> set (neighbors p). \<not> occupied n))"

subsection \<open>Concrete states\<close>

definition sd_empty_world :: sd_world where
  "sd_empty_world = \<lparr>sd_blocks = [], sd_visible_blocks = Map.empty, sd_batch = {}\<rparr>"

definition one_block_world :: world where
  "one_block_world =
     \<lparr>blocks = [(0, 0, 0) \<mapsto> ''GRASS''],
      visible_blocks = [(0, 0, 0) \<mapsto> ((0, 0, 0), ''GRASS'')],
      batch = {((0, 0, 0), ''GRASS'')}\<rparr>"

text \<open>The six neighbours of the origin, and a world that holds them and the origin.\<close>

definition origin_shell :: "(position \<times> block_type) list" where
  "origin_shell =
     [((1, 0, 0), ''STONE''), ((0, 1, 0), ''STONE''), ((0, 0, 1), ''STONE''),
      ((- 1, 0, 0), ''STONE''), ((0, - 1, 0), ''STONE''), ((0, 0, - 1), ''STONE'')]"

definition enclosed_world :: world where
  "enclosed_world =
     \<lparr>blocks = map_of (((0, 0, 0), ''STONE'') # origin_shell),
      visible_blocks = map_of (map (\<lambda>(p, t). (p, (p, t))) origin_shell),
      batch = set (map (\<lambda>(p, t). (p, t)) origin_shell)\<rparr>"

text \<open>A single block at \<open>(2, 0, 0)\<close>, in either world.\<close>

definition ray_world :: world where
  "ray_world =
     \<lparr>blocks = [(2, 0, 0) \<mapsto> ''GRASS''],
      visible_blocks = [(2, 0, 0) \<mapsto> ((2, 0, 0), ''GRASS'')],
      batch = {((2, 0, 0), ''GRASS'')}\<rparr>"

definition sd_ray_world :: sd_world where
  "sd_ray_world =
     \<lparr>sd_blocks = [((2, 0, 0), ''GRASS'')],
      sd_visible_blocks = [(2, 0, 0) \<mapsto> ((2, 0, 0), ''GRASS'')],
      sd_batch = {((2, 0, 0), ''GRASS'')}\<rparr>"

definition sd_stone_world :: sd_world where
  "sd_stone_world =
     \<lparr>sd_blocks = [((0, 0, 0), ''stone'')], sd_visible_blocks = Map.empty, sd_batch = {}\<rparr>"

section \<open>Properties of \<open>World\<close> (DeepSeek.py)\<close>

subsection \<open>What the seventh entry of \<open>FACE_VECTORS\<close> does\<close>

lemma neighbor_of_error: "neighbor_of p f = Inl e \<Longrightarrow> e = TypeError"
proof (cases p; cases f)
  fix x y z dx dy dz
  assume "neighbor_of p f = Inl e" "p = (x, y, z)" "f = (dx, dy, dz)"
  then show ?thesis
    by (cases dx; cases dy; cases dz) (auto split: sum.splits)
qed

lemma neighbor_of_seventh:
  "neighbor_of p (Tup (1, 1, 1), Tup (1, - 1, 1), Tup (- 1, 1, - 1)) = Inl TypeError"
  by (cases p) simp

text \<open>
  \<open>is_visible\<close> answers \<open>True\<close> as soon as one of the six neighbours is missing. When all
  six are present the loop reaches the seventh entry and raises: \<open>return False\<close> is never
  reached.
\<close>

lemma is_visible_eq:
  "is_visible w (x, y, z) =
     (if blocks w (x + 1, y, z) = None \<or> blocks w (x, y + 1, z) = None \<or>
         blocks w (x, y, z + 1) = None \<or> blocks w (x, y, z - 1) = None \<or>
         blocks w (x, y - 1, z) = None \<or> blocks w (x - 1, y, z) = None
      then Inr True else Inl TypeError)"
  by (simp add: is_visible_def FACE_VECTORS_def)

lemma is_visible_cases: "is_visible w p = Inr True \<or> is_visible w p = Inl TypeError"
  by (cases p) (simp add: is_visible_eq)

lemma make_visible_ok: "blocks w p \<noteq> None \<Longrightarrow> fst (make_visible w p) = Inr ()"
  by (auto simp: make_visible_def split: option.splits)

lemma make_visible_blocks: "blocks (snd (make_visible w p)) = blocks w"
  by (auto simp: make_visible_def split: option.splits)

lemma make_hidden_blocks: "blocks (make_hidden w p) = blocks w"
  by (auto simp: make_hidden_def split: option.splits)

lemma add_block_loop_raises:
  "neighbor_of p g = Inl TypeError \<Longrightarrow> fst (add_block_loop w p (fs @ [g])) = Inl TypeError"
proof (induction fs arbitrary: w)
  case Nil
  then show ?case by simp
next
  case (Cons f fs)
  show ?case
  proof (cases "neighbor_of p f")
    case (Inl e)
    then show ?thesis using neighbor_of_error[of p f] by auto
  next
    case (Inr n)
    then show ?thesis
      using Cons.IH[OF Cons.prems] is_visible_cases[of w n] make_visible_ok[of w n]
      by (auto split: sum.splits prod.splits)
  qed
qed

lemma add_block_raises: "blocks w p = None \<Longrightarrow> fst (add_block w p t) = Inl TypeError"
proof -
  assume free: "blocks w p = None"
  define w1 where "w1 = w\<lparr>blocks := (blocks w)(p \<mapsto> t)\<rparr>"
  have loop: "fst (add_block_loop v p FACE_VECTORS) = Inl TypeError" for v
    using add_block_loop_raises[OF neighbor_of_seventh, of v p "butlast FACE_VECTORS"]
    by (simp add: FACE_VECTORS_def)
  have occ: "blocks w1 p \<noteq> None" by (simp add: w1_def)
  show ?thesis
    using free is_visible_cases[of w1 p] make_visible_ok[OF occ] loop
    by (auto simp: add_block_def w1_def[symmetric] Let_def split: sum.splits prod.splits)
qed

lemma remove_block_loop_raises:
  "neighbor_of p g = Inl TypeError \<Longrightarrow> fst (remove_block_loop w p (fs @ [g])) = Inl TypeError"
proof (induction fs arbitrary: w)
  case Nil
  then show ?case by simp
next
  case (Cons f fs)
  show ?case
  proof (cases "neighbor_of p f")
    case (Inl e)
    then show ?thesis using neighbor_of_error[of p f] by auto
  next
    case (Inr n)
    then show ?thesis
      using Cons.IH[OF Cons.prems] is_visible_cases[of w n] make_visible_ok[of w n]
      by (auto split: sum.splits prod.splits)
  qed
qed

lemma remove_block_raises: "blocks w p \<noteq> None \<Longrightarrow> fst (remove_block w p) = Inl TypeError"
proof -
  assume occ: "blocks w p \<noteq> None"
  have loop: "fst (remove_block_loop v p FACE_VECTORS) = Inl TypeError" for v
    using remove_block_loop_raises[OF neighbor_of_seventh, of v p "butlast FACE_VECTORS"]
    by (simp add: FACE_VECTORS_def)
  show ?thesis
    using occ loop by (simp add: remove_block_def Let_def)
qed

lemma remove_block_loop_blocks: "blocks (snd (remove_block_loop w p fs)) = blocks w"
proof (induction fs arbitrary: w)
  case Nil
  then show ?case by simp
next
  case (Cons f fs)
  have mv: "blocks (snd (remove_block_loop w' p fs)) = blocks w \<and> blocks w' = blocks w"
    if "make_visible w n = (r, w')" for n r w'
    using that Cons.IH[of w'] make_visible_blocks[of w n] by simp
  show ?case
    using Cons.IH[of w] mv
    by (auto split: sum.splits prod.splits)
qed

lemma remove_block_blocks: "blocks (snd (remove_block w p)) = (blocks w)(p := None)"
  by (auto simp: remove_block_def Let_def remove_block_loop_blocks make_hidden_blocks)

subsection \<open>What the exposure predicates compute\<close>

lemma is_exposed_eq:
  "is_exposed w (x, y, z) =
     (map_of (sd_blocks w) (x + 1, y, z) = None \<or> map_of (sd_blocks w) (x - 1, y, z) = None \<or>
      map_of (sd_blocks w) (x, y + 1, z) = None \<or> map_of (sd_blocks w) (x, y - 1, z) = None \<or>
      map_of (sd_blocks w) (x, y, z + 1) = None \<or> map_of (sd_blocks w) (x, y, z - 1) = None)"
  by (simp add: is_exposed_def)

lemma is_exposed_enclosed:
  "\<forall>n \<in> set (neighbors p). map_of (sd_blocks s) n \<noteq> None \<Longrightarrow> \<not> is_exposed s p"
  by (cases p) (simp add: is_exposed_eq)

section \<open>The claims about the voxel map\<close>

text \<open>
  Claim C1: for every sequence of add and remove operations that starts from an empty
  map, after each operation the exposure set \<open>visible_blocks\<close> equals the set of occupied
  positions that are exposed. \<open>World.add_block\<close> does not get that far: the first add on
  the empty world stores the block, makes it visible, walks the six face vectors and
  then raises \<open>TypeError\<close> at the seventh entry of \<open>FACE_VECTORS\<close>, so the sequence ends
  with an exception after its first operation.
\<close>

theorem first_add_block_raises:
  "run_ops empty_world [Add (0, 0, 0) ''GRASS''] =
     (Inl TypeError,
      \<lparr>blocks = [(0, 0, 0) \<mapsto> ''GRASS''],
       visible_blocks = [(0, 0, 0) \<mapsto> ((0, 0, 0), ''GRASS'')],
       batch = {((0, 0, 0), ''GRASS'')}\<rparr>)"
  by (simp add: empty_world_def add_block_def is_visible_def make_visible_def FACE_VECTORS_def)

text \<open>
  Claim C2: every core operation is total and completes without raising an error. In
  \<open>World\<close> every call that changes the map raises: \<open>add_block\<close> on a free position and
  \<open>remove_block\<close> on an occupied one both end in \<open>TypeError\<close>, whatever the state.
\<close>

theorem mutating_calls_raise:
  "(blocks w p = None \<longrightarrow> fst (add_block w p t) = Inl TypeError) \<and>
   (blocks w p \<noteq> None \<longrightarrow> fst (remove_block w p) = Inl TypeError)"
  using add_block_raises[of w p t] remove_block_raises[of w p] by blast

theorem mutating_calls_raise_witness:
  "blocks empty_world (0, 0, 0) = None \<and>
   fst (add_block empty_world (0, 0, 0) ''BRICK'') = Inl TypeError \<and>
   blocks one_block_world (0, 0, 0) \<noteq> None \<and>
   fst (remove_block one_block_world (0, 0, 0)) = Inl TypeError"
  using mutating_calls_raise[of empty_world "(0, 0, 0)" "''BRICK''"]
    mutating_calls_raise[of one_block_world "(0, 0, 0)" "''BRICK''"]
  by (simp add: empty_world_def one_block_world_def)

text \<open>
  Claim C3: \<open>is_visible\<close> / \<open>is_exposed\<close> return true if and only if the queried position is
  occupied and at least one of its 6 axis-aligned neighbours is absent. Neither method
  looks the queried position up: on an empty map both answer true for a position that
  holds no block.
\<close>

theorem exposed_without_occupancy:
  "is_exposed sd_empty_world (0, 0, 0) = True \<and>
   spec_isExposed (\<lambda>q. map_of (sd_blocks sd_empty_world) q \<noteq> None) (0, 0, 0) = False \<and>
   is_visible empty_world (0, 0, 0) = Inr True \<and>
   spec_isExposed (\<lambda>q. blocks empty_world q \<noteq> None) (0, 0, 0) = False"
  by (simp add: is_exposed_eq is_visible_eq spec_isExposed_def sd_empty_world_def empty_world_def)

text \<open>
  Claim C3, as the code has it: each method returns true if and only if at least one of
  the 6 axis-aligned neighbours of the queried position is absent from the map, whether
  or not the position itself is occupied; for an occupied position this is the exposure
  predicate of the specification.
\<close>

theorem exposure_predicates:
  "(is_exposed s p \<longleftrightarrow> (\<exists>n \<in> set (neighbors p). map_of (sd_blocks s) n = None)) \<and>
   (is_visible w p = Inr True \<longleftrightarrow> (\<exists>n \<in> set (neighbors p). blocks w n = None)) \<and>
   (map_of (sd_blocks s) p \<noteq> None \<longrightarrow>
      is_exposed s p = spec_isExposed (\<lambda>q. map_of (sd_blocks s) q \<noteq> None) p) \<and>
   (blocks w p \<noteq> None \<longrightarrow>
      (is_visible w p = Inr True) = spec_isExposed (\<lambda>q. blocks w q \<noteq> None) p)"
proof (cases p)
  case (fields x y z)
  show ?thesis
    unfolding fields by (auto simp: is_exposed_eq is_visible_eq spec_isExposed_def)
qed

theorem exposure_predicates_witness:
  "is_exposed sd_stone_world (0, 0, 0) \<and>
   is_visible one_block_world (0, 0, 0) = Inr True \<and>
   map_of (sd_blocks sd_stone_world) (0, 0, 0) \<noteq> None \<and>
   spec_isExposed (\<lambda>q. map_of (sd_blocks sd_stone_world) q \<noteq> None) (0, 0, 0) \<and>
   blocks one_block_world (0, 0, 0) \<noteq> None \<and>
   spec_isExposed (\<lambda>q. blocks one_block_world q \<noteq> None) (0, 0, 0)"
  using exposure_predicates[of sd_stone_world "(0, 0, 0)" one_block_world]
  by (simp add: sd_stone_world_def one_block_world_def is_exposed_eq is_visible_eq
      spec_isExposed_def)

text \<open>
  Claim C4: adding at an occupied position is a silent no-op and the first block type
  stays. \<open>StableDiffusionWorld.add_block\<close> has no such guard: it assigns, so the type
  stored last wins.
\<close>

theorem add_block_overwrites:
  "map_of (sd_blocks sd_stone_world) (0, 0, 0) = Some ''stone'' \<and>
   map_of (sd_blocks (sd_add_block sd_stone_world (0, 0, 0) ''grass'')) (0, 0, 0) = Some ''grass'' \<and>
   sd_blocks (sd_add_block sd_stone_world (0, 0, 0) ''grass'') \<noteq> sd_blocks sd_stone_world"
  by (simp add: sd_stone_world_def sd_add_block_def)

text \<open>
  Claim C4, as the code has it: \<open>World.add_block\<close> on an occupied position returns
  without changing the world (blocks, stored type and \<open>visible_blocks\<close> are as before);
  \<open>StableDiffusionWorld.add_block\<close> stores the given type at the position and changes no
  other key, nor \<open>visible_blocks\<close>, nor the batch, and calling it twice in a row with the
  same arguments leaves the map as calling it once does.
\<close>

theorem add_block_occupied:
  "(blocks w p \<noteq> None \<longrightarrow> add_block w p t = (Inr (), w)) \<and>
   map_of (sd_blocks (sd_add_block s p t)) = (map_of (sd_blocks s))(p \<mapsto> t) \<and>
   sd_visible_blocks (sd_add_block s p t) = sd_visible_blocks s \<and>
   sd_batch (sd_add_block s p t) = sd_batch s \<and>
   sd_add_block (sd_add_block s p t) p t = sd_add_block s p t"
  by (simp add: add_block_def sd_add_block_def AList.update_conv')

theorem add_block_occupied_witness:
  "blocks one_block_world (0, 0, 0) \<noteq> None \<and>
   add_block one_block_world (0, 0, 0) ''BRICK'' = (Inr (), one_block_world) \<and>
   blocks (snd (add_block one_block_world (0, 0, 0) ''BRICK'')) (0, 0, 0) = Some ''GRASS'' \<and>
   sd_blocks (sd_add_block (sd_add_block sd_stone_world (0, 0, 0) ''grass'') (0, 0, 0) ''grass'')
     = [((0, 0, 0), ''grass'')]"
  using add_block_occupied[of one_block_world "(0, 0, 0)" "''BRICK''" sd_stone_world]
    add_block_occupied[of one_block_world "(0, 0, 0)" "''grass''" sd_stone_world]
  by (simp add: one_block_world_def sd_stone_world_def sd_add_block_def)

text \<open>
  Claim C5: removing at an unoccupied position changes neither the blocks map nor the
  exposure set, in both worlds; and a second remove at the same position, applied to the
  state the first one left (whether the first returned or raised), changes nothing and
  returns normally.
\<close>

theorem remove_block_unoccupied:
  "(blocks w p = None \<longrightarrow> remove_block w p = (Inr (), w)) \<and>
   remove_block (snd (remove_block w p)) p = (Inr (), snd (remove_block w p)) \<and>
   (map_of (sd_blocks s) p = None \<longrightarrow> sd_remove_block s p = s) \<and>
   sd_remove_block (sd_remove_block s p) p = sd_remove_block s p"
proof -
  have a: "blocks v p = None \<Longrightarrow> remove_block v p = (Inr (), v)" for v
    by (simp add: remove_block_def)
  have b: "blocks (snd (remove_block w p)) p = None"
    by (simp add: remove_block_blocks)
  have c: "sd_remove_block (sd_remove_block s p) p = sd_remove_block s p"
    by (simp add: sd_remove_block_def AList.delete_conv')
  show ?thesis using a[of w] a[OF b] c by (simp add: sd_remove_block_def)
qed

theorem remove_block_unoccupied_witness:
  "blocks one_block_world (5, 0, 0) = None \<and>
   remove_block one_block_world (5, 0, 0) = (Inr (), one_block_world) \<and>
   map_of (sd_blocks sd_stone_world) (5, 0, 0) = None \<and>
   sd_remove_block sd_stone_world (5, 0, 0) = sd_stone_world \<and>
   remove_block (snd (remove_block one_block_world (0, 0, 0))) (0, 0, 0) =
     (Inr (), snd (remove_block one_block_world (0, 0, 0)))"
  using remove_block_unoccupied[of one_block_world "(5, 0, 0)" sd_stone_world]
    remove_block_unoccupied[of one_block_world "(0, 0, 0)" sd_stone_world]
  by (simp add: one_block_world_def sd_stone_world_def)

text \<open>
  Claim C6: a position whose six axis-aligned neighbours are all occupied is reported as
  not exposed. \<open>StableDiffusionWorld.is_exposed\<close> does so (\<open>is_exposed_enclosed\<close>);
  \<open>World.is_visible\<close> raises \<open>TypeError\<close> instead of returning \<open>False\<close>, here at the origin
  with its six neighbours present.
\<close>

theorem is_visible_enclosed_raises:
  "is_block_at enclosed_world (1, 0, 0) \<and> is_block_at enclosed_world (- 1, 0, 0) \<and>
   is_block_at enclosed_world (0, 1, 0) \<and> is_block_at enclosed_world (0, - 1, 0) \<and>
   is_block_at enclosed_world (0, 0, 1) \<and> is_block_at enclosed_world (0, 0, - 1) \<and>
   is_visible enclosed_world (0, 0, 0) = Inl TypeError"
  by (simp add: is_visible_eq is_block_at_def enclosed_world_def origin_shell_def)

section \<open>Properties of the ray march\<close>

lemma to_double_0: "to_double 0 = Fin 0"
  by (simp add: to_double_def)

text \<open>The march of the scenario of claim C7, step by step in binary64 arithmetic.\<close>

lemma march_to_block:
  "raycast_blocks [(2, 0, 0) \<mapsto> ''GRASS''] (Fin 0, Fin 0, Fin 0) (Fin 1, Fin 0, Fin 0) (Fin 10) =
     Inr (Some (2, 0, 0), Some (1, 0, 0))"
  by code_simp

lemma raycast_loop_no_hit:
  "\<forall>k<n. \<exists>p. round_position (marched start direction k) = Inr p \<and> b p = None \<Longrightarrow>
     raycast_loop b start direction n = Inr (None, None)"
proof (induction n arbitrary: start)
  case 0
  then show ?case by simp
next
  case (Suc n)
  from Suc.prems obtain p where p: "round_position start = Inr p" "b p = None"
    by fastforce
  have "\<forall>k<n. \<exists>p. round_position (marched (step_forward start direction) direction k) = Inr p
          \<and> b p = None"
    using Suc.prems by (metis Suc_less_eq marched.simps(2))
  then have "raycast_loop b (step_forward start direction) direction n = Inr (None, None)"
    by (rule Suc.IH)
  with p show ?case by simp
qed

text \<open>With a zero direction every step adds and subtracts zero: the ray stays where it is.\<close>

lemma step_forward_zero:
  "is_double x \<Longrightarrow> is_double y \<Longrightarrow> is_double z \<Longrightarrow>
     step_forward (Fin x, Fin y, Fin z) (Fin 0, Fin 0, Fin 0) = (Fin x, Fin y, Fin z)"
  by (simp add: step_size_def to_double_0 is_double_def)

lemma step_back_zero:
  "is_double x \<Longrightarrow> is_double y \<Longrightarrow> is_double z \<Longrightarrow>
     step_back (Fin x, Fin y, Fin z) (Fin 0, Fin 0, Fin 0) = (Fin x, Fin y, Fin z)"
  by (simp add: step_size_def to_double_0 is_double_def fsub_def)

lemma raycast_loop_zero:
  assumes "is_double x" "is_double y" "is_double z"
  shows "raycast_loop b (Fin x, Fin y, Fin z) (Fin 0, Fin 0, Fin 0) n =
     (if n = 0 \<or> b (round_half_even x, round_half_even y, round_half_even z) = None
      then Inr (None, None)
      else Inr (Some (round_half_even x, round_half_even y, round_half_even z),
                Some (round_half_even x, round_half_even y, round_half_even z)))"
proof (induction n)
  case 0
  then show ?case by simp
next
  case (Suc n)
  then show ?case
    using assms by (simp add: step_forward_zero step_back_zero del: step_forward.simps step_back.simps)
qed

section \<open>Properties of \<open>rebuild_batch\<close>\<close>

lemma is_exposed_cache_update [simp]:
  "is_exposed (w\<lparr>sd_visible_blocks := v, sd_batch := b\<rparr>) p = is_exposed w p"
  by (simp add: is_exposed_def)

lemma rebuild_batch_loop_blocks:
  "sd_blocks (snd (rebuild_batch_loop w px pz items)) = sd_blocks w"
proof (induction items arbitrary: w)
  case Nil
  then show ?case by simp
next
  case (Cons item items)
  obtain x y z t where item: "item = ((x, y, z), t)"
    by (metis prod_cases3 surj_pair)
  show ?case
    unfolding item by (simp add: Cons.IH split: sum.splits)
qed

lemma rebuild_batch_loop_dom:
  "fst (rebuild_batch_loop w px pz items) = Inr () \<Longrightarrow>
   dom (sd_visible_blocks (snd (rebuild_batch_loop w px pz items))) =
     dom (sd_visible_blocks w) \<union>
     {(x, y, z). (x, y, z) \<in> fst ` set items \<and> within_render x px = Inr True \<and>
        within_render z pz = Inr True \<and> is_exposed w (x, y, z)}"
proof (induction items arbitrary: w)
  case Nil
  then show ?case by simp
next
  case (Cons item items)
  obtain x y z t where item: "item = ((x, y, z), t)"
    by (metis prod_cases3 surj_pair)
  let ?w' = "w\<lparr>sd_visible_blocks := (sd_visible_blocks w)((x, y, z) \<mapsto> ((x, y, z), t)),
                sd_batch := insert ((x, y, z), t) (sd_batch w)\<rparr>"
  consider
    (shown) "within_render x px = Inr True" "within_render z pz = Inr True" "is_exposed w (x, y, z)"
  | (skipped) "within_render x px = Inr False \<or>
       (within_render x px = Inr True \<and> within_render z pz = Inr False) \<or>
       (within_render x px = Inr True \<and> within_render z pz = Inr True \<and> \<not> is_exposed w (x, y, z))"
  | (raised) "(\<exists>e. within_render x px = Inl e) \<or>
       (within_render x px = Inr True \<and> (\<exists>e. within_render z pz = Inl e))"
    by (cases "within_render x px"; cases "within_render z pz") auto
  then show ?case
  proof cases
    case shown
    then have step: "rebuild_batch_loop w px pz (item # items) = rebuild_batch_loop ?w' px pz items"
      by (simp add: item)
    have "fst (rebuild_batch_loop ?w' px pz items) = Inr ()"
      using Cons.prems step by simp
    have d: "dom (sd_visible_blocks ?w') = insert (x, y, z) (dom (sd_visible_blocks w))"
      by auto
    from Cons.IH[OF \<open>fst (rebuild_batch_loop ?w' px pz items) = Inr ()\<close>]
    have ih: "dom (sd_visible_blocks (snd (rebuild_batch_loop ?w' px pz items))) =
        insert (x, y, z) (dom (sd_visible_blocks w)) \<union>
        {(x, y, z). (x, y, z) \<in> fst ` set items \<and> within_render x px = Inr True \<and>
           within_render z pz = Inr True \<and> is_exposed w (x, y, z)}"
      by (simp only: d is_exposed_cache_update)
    have here: "{(x, y, z). (x, y, z) \<in> fst ` set (item # items) \<and>
          within_render x px = Inr True \<and> within_render z pz = Inr True \<and>
          is_exposed w (x, y, z)} =
        insert (x, y, z)
          {(x, y, z). (x, y, z) \<in> fst ` set items \<and> within_render x px = Inr True \<and>
             within_render z pz = Inr True \<and> is_exposed w (x, y, z)}"
      using shown by (auto simp: item)
    show ?thesis
      unfolding step ih here by blast
  next
    case skipped
    then have step: "rebuild_batch_loop w px pz (item # items) = rebuild_batch_loop w px pz items"
      by (auto simp: item)
    have "fst (rebuild_batch_loop w px pz items) = Inr ()"
      using Cons.prems step by simp
    have here: "{(x, y, z). (x, y, z) \<in> fst ` set (item # items) \<and>
          within_render x px = Inr True \<and> within_render z pz = Inr True \<and>
          is_exposed w (x, y, z)} =
          {(x, y, z). (x, y, z) \<in> fst ` set items \<and> within_render x px = Inr True \<and>
             within_render z pz = Inr True \<and> is_exposed w (x, y, z)}"
      using skipped by (auto simp: item)
    from Cons.IH[OF \<open>fst (rebuild_batch_loop w px pz items) = Inr ()\<close>] show ?thesis
      unfolding step here .
  next
    case raised
    then have "\<exists>e. fst (rebuild_batch_loop w px pz (item # items)) = Inl e"
      by (auto simp: item)
    with Cons.prems show ?thesis by simp
  qed
qed

lemma within_render_0: "within_render 0 (Fin 0) = Inr True"
  by (simp add: within_render_def int_to_float_def to_double_0 fsub_def render_sq_def)

section \<open>The claims about the raycaster and the render cache\<close>

text \<open>
  Claim C7: on a map whose only block is at \<open>(2, 0, 0)\<close>, the ray from \<open>(0, 0, 0)\<close> in
  direction \<open>(1, 0, 0)\<close> with step \<open>0.1\<close> and maximum distance \<open>10\<close> returns the hit
  position \<open>(2, 0, 0)\<close> and the adjacent position \<open>(1, 0, 0)\<close>, for the ray caster of either
  script. (The sum of fifteen steps is the float just above \<open>1.5\<close>, which rounds to \<open>2\<close>;
  one step back is just above \<open>1.4\<close>, which rounds to \<open>1\<close>.)
\<close>

theorem raycast_scenario:
  "raycast ray_world (Fin 0, Fin 0, Fin 0) (Fin 1, Fin 0, Fin 0) (Fin 10) =
     Inr (Some (2, 0, 0), Some (1, 0, 0)) \<and>
   sd_raycast sd_ray_world (Fin 0, Fin 0, Fin 0) (Fin 1, Fin 0, Fin 0) (Fin 10) =
     Inr (Some (2, 0, 0), Some (1, 0, 0))"
  by (simp add: raycast_def sd_raycast_def ray_world_def sd_ray_world_def march_to_block)

text \<open>
  Claim C8: when none of the positions that the march reaches and rounds, within the number
  of steps that the maximum distance allows, is occupied, \<open>raycast\<close> returns
  \<open>(None, None)\<close>. The hypothesis says that each of these positions exists (its
  coordinates can be rounded) and is absent from the map.
\<close>

theorem no_block_no_hit:
  assumes "range_count max_distance = Inr n"
    and "\<forall>k<n. \<exists>p. round_position (marched start direction k) = Inr p \<and>
           blocks w p = None \<and> map_of (sd_blocks s) p = None"
  shows "raycast w start direction max_distance = Inr (None, None) \<and>
         sd_raycast s start direction max_distance = Inr (None, None)"
proof -
  have a: "\<forall>k<n. \<exists>p. round_position (marched start direction k) = Inr p \<and> blocks w p = None"
    using assms(2) by blast
  have b: "\<forall>k<n. \<exists>p. round_position (marched start direction k) = Inr p \<and>
            map_of (sd_blocks s) p = None"
    using assms(2) by blast
  show ?thesis
    using assms(1) raycast_loop_no_hit[OF a] raycast_loop_no_hit[OF b]
    by (simp add: raycast_def sd_raycast_def raycast_blocks_def)
qed

theorem no_block_no_hit_witness:
  "range_count (Fin (1 / 4)) = Inr 2 \<and>
   round_position (marched (Fin 0, Fin 0, Fin 0) (Fin 1, Fin 0, Fin 0) 0) = Inr (0, 0, 0) \<and>
   round_position (marched (Fin 0, Fin 0, Fin 0) (Fin 1, Fin 0, Fin 0) 1) = Inr (0, 0, 0) \<and>
   blocks ray_world (0, 0, 0) = None \<and> map_of (sd_blocks sd_ray_world) (0, 0, 0) = None \<and>
   raycast ray_world (Fin 0, Fin 0, Fin 0) (Fin 1, Fin 0, Fin 0) (Fin (1 / 4)) = Inr (None, None) \<and>
   sd_raycast sd_ray_world (Fin 0, Fin 0, Fin 0) (Fin 1, Fin 0, Fin 0) (Fin (1 / 4)) =
     Inr (None, None)"
proof -
  have r: "range_count (Fin (1 / 4)) = Inr 2"
    by code_simp
  have m0: "round_position (marched (Fin 0, Fin 0, Fin 0) (Fin 1, Fin 0, Fin 0) 0) = Inr (0, 0, 0)"
    by code_simp
  have m1: "round_position (marched (Fin 0, Fin 0, Fin 0) (Fin 1, Fin 0, Fin 0) 1) = Inr (0, 0, 0)"
    by code_simp
  have free: "blocks ray_world (0, 0, 0) = None \<and> map_of (sd_blocks sd_ray_world) (0, 0, 0) = None"
    by (simp add: ray_world_def sd_ray_world_def)
  have h: "\<forall>k<2. \<exists>p. round_position (marched (Fin 0, Fin 0, Fin 0) (Fin 1, Fin 0, Fin 0) k) = Inr p \<and>
      blocks ray_world p = None \<and> map_of (sd_blocks sd_ray_world) p = None"
  proof (intro allI impI)
    fix k :: nat
    assume "k < 2"
    then have "k = 0 \<or> k = 1" by auto
    then have "round_position (marched (Fin 0, Fin 0, Fin 0) (Fin 1, Fin 0, Fin 0) k) = Inr (0, 0, 0)"
      using m0 m1 by blast
    with free show "\<exists>p. round_position (marched (Fin 0, Fin 0, Fin 0) (Fin 1, Fin 0, Fin 0) k) = Inr p \<and>
      blocks ray_world p = None \<and> map_of (sd_blocks sd_ray_world) p = None"
      by blast
  qed
  show ?thesis
    using no_block_no_hit[OF r h] r m0 m1 free by blast
qed

text \<open>
  Claim C9: a zero direction vector is treated as "no hit". Neither \<open>raycast\<close> tests the
  direction: a ray that starts inside an occupied voxel hits that voxel at its first
  step, and reports it as the adjacent position as well.
\<close>

theorem zero_direction_hits_origin_block:
  "raycast ray_world (Fin 2, Fin 0, Fin 0) (Fin 0, Fin 0, Fin 0) (Fin 10) =
     Inr (Some (2, 0, 0), Some (2, 0, 0)) \<and>
   sd_raycast sd_ray_world (Fin 2, Fin 0, Fin 0) (Fin 0, Fin 0, Fin 0) (Fin 10) =
     Inr (Some (2, 0, 0), Some (2, 0, 0))"
  by code_simp

text \<open>
  Claim C9, as the code has it: with a zero direction and a finite origin the ray never
  leaves the voxel of its origin. \<open>raycast\<close> returns \<open>(None, None)\<close> when that voxel is
  unoccupied or the number of steps is zero, and otherwise returns the rounded origin as
  both the hit and the adjacent position.
\<close>

theorem zero_direction:
  assumes "is_double x" "is_double y" "is_double z"
    and "range_count max_distance = Inr n"
    and "p = (round_half_even x, round_half_even y, round_half_even z)"
  shows "raycast w (Fin x, Fin y, Fin z) (Fin 0, Fin 0, Fin 0) max_distance =
           (if n = 0 \<or> blocks w p = None then Inr (None, None) else Inr (Some p, Some p)) \<and>
         sd_raycast s (Fin x, Fin y, Fin z) (Fin 0, Fin 0, Fin 0) max_distance =
           (if n = 0 \<or> map_of (sd_blocks s) p = None then Inr (None, None)
            else Inr (Some p, Some p))"
  using assms(4,5) raycast_loop_zero[OF assms(1-3)]
  by (simp add: raycast_def sd_raycast_def raycast_blocks_def)

theorem zero_direction_witness:
  "is_double 2 \<and> is_double 0 \<and> range_count (Fin 10) = Inr 100 \<and>
   raycast ray_world (Fin 2, Fin 0, Fin 0) (Fin 0, Fin 0, Fin 0) (Fin 10) =
     Inr (Some (2, 0, 0), Some (2, 0, 0)) \<and>
   raycast ray_world (Fin 0, Fin 0, Fin 0) (Fin 0, Fin 0, Fin 0) (Fin 10) = Inr (None, None) \<and>
   sd_raycast sd_ray_world (Fin 0, Fin 0, Fin 0) (Fin 0, Fin 0, Fin 0) (Fin 10) = Inr (None, None)"
proof -
  have d2: "is_double 2" by code_simp
  have d0: "is_double 0" by (simp add: is_double_def to_double_0)
  have r: "range_count (Fin 10) = Inr 100" by code_simp
  have e2: "round_half_even 2 = 2" by (simp add: round_half_even_def)
  have e0: "round_half_even 0 = 0" by (simp add: round_half_even_def)
  show ?thesis
    using zero_direction[OF d2 d0 d0 r refl, of ray_world sd_ray_world]
      zero_direction[OF d0 d0 d0 r refl, of ray_world sd_ray_world] d2 d0 r
    by (simp add: e2 e0 ray_world_def sd_ray_world_def)
qed

text \<open>
  Claim C10: \<open>StableDiffusionWorld.add_block\<close> and \<open>remove_block\<close> change only the blocks
  mapping; \<open>visible_blocks\<close> and the batch are as before, so they may be out of date until
  \<open>rebuild_batch\<close> runs. \<open>rebuild_batch\<close> leaves the blocks as they are and, when it
  returns, has made \<open>visible_blocks\<close> hold exactly the blocks that are within render
  distance of the player in \<open>x\<close> and \<open>z\<close> and exposed.
\<close>

theorem rebuild_only_in_rebuild_batch:
  "sd_visible_blocks (sd_add_block w pos t) = sd_visible_blocks w \<and>
   sd_batch (sd_add_block w pos t) = sd_batch w \<and>
   sd_visible_blocks (sd_remove_block w pos) = sd_visible_blocks w \<and>
   sd_batch (sd_remove_block w pos) = sd_batch w \<and>
   sd_blocks (snd (rebuild_batch w (px, py, pz))) = sd_blocks w \<and>
   (fst (rebuild_batch w (px, py, pz)) = Inr () \<longrightarrow>
      dom (sd_visible_blocks (snd (rebuild_batch w (px, py, pz)))) =
        {(x, y, z). map_of (sd_blocks w) (x, y, z) \<noteq> None \<and> within_render x px = Inr True \<and>
           within_render z pz = Inr True \<and> is_exposed w (x, y, z)})"
proof -
  let ?w0 = "w\<lparr>sd_batch := {}, sd_visible_blocks := Map.empty\<rparr>"
  have frame: "sd_visible_blocks (sd_add_block w pos t) = sd_visible_blocks w \<and>
      sd_batch (sd_add_block w pos t) = sd_batch w \<and>
      sd_visible_blocks (sd_remove_block w pos) = sd_visible_blocks w \<and>
      sd_batch (sd_remove_block w pos) = sd_batch w"
    by (simp add: sd_add_block_def sd_remove_block_def)
  have keep: "sd_blocks (snd (rebuild_batch w (px, py, pz))) = sd_blocks w"
    by (simp add: rebuild_batch_def rebuild_batch_loop_blocks)
  have exp0: "is_exposed ?w0 p = is_exposed w p" for p
    by (simp add: is_exposed_def)
  have cache: "dom (sd_visible_blocks (snd (rebuild_batch w (px, py, pz)))) =
        {(x, y, z). map_of (sd_blocks w) (x, y, z) \<noteq> None \<and> within_render x px = Inr True \<and>
           within_render z pz = Inr True \<and> is_exposed w (x, y, z)}"
    if ok: "fst (rebuild_batch w (px, py, pz)) = Inr ()"
  proof -
    have "fst (rebuild_batch_loop ?w0 px pz (sd_blocks w)) = Inr ()"
      using ok by (simp add: rebuild_batch_def)
    from rebuild_batch_loop_dom[OF this] show ?thesis
      by (simp add: rebuild_batch_def exp0 map_of_eq_None_iff)
  qed
  show ?thesis using frame keep cache by blast
qed

theorem rebuild_only_in_rebuild_batch_witness:
  "sd_visible_blocks (sd_add_block sd_stone_world (0, 1, 0) ''grass'') = Map.empty \<and>
   is_exposed (sd_add_block sd_stone_world (0, 1, 0) ''grass'') (0, 1, 0) \<and>
   fst (rebuild_batch (sd_add_block sd_stone_world (0, 1, 0) ''grass'') (Fin 0, Fin 20, Fin 0)) = Inr () \<and>
   dom (sd_visible_blocks
     (snd (rebuild_batch (sd_add_block sd_stone_world (0, 1, 0) ''grass'') (Fin 0, Fin 20, Fin 0)))) =
     {(0, 0, 0), (0, 1, 0)}"
proof -
  let ?w = "sd_add_block sd_stone_world (0, 1, 0) ''grass''"
  have ok: "fst (rebuild_batch ?w (Fin 0, Fin 20, Fin 0)) = Inr ()"
    by (simp add: rebuild_batch_def sd_add_block_def sd_stone_world_def within_render_0
        is_exposed_def)
  have stale: "sd_visible_blocks ?w = Map.empty"
    using rebuild_only_in_rebuild_batch[of sd_stone_world "(0, 1, 0)" "''grass''"]
    by (simp add: sd_stone_world_def)
  have ex: "is_exposed ?w (0, 1, 0)"
    by (simp add: sd_add_block_def sd_stone_world_def is_exposed_def)
  have "dom (sd_visible_blocks (snd (rebuild_batch ?w (Fin 0, Fin 20, Fin 0)))) =
     {(x, y, z). map_of (sd_blocks ?w) (x, y, z) \<noteq> None \<and> within_render x (Fin 0) = Inr True \<and>
           within_render z (Fin 0) = Inr True \<and> is_exposed ?w (x, y, z)}"
    using rebuild_only_in_rebuild_batch[of ?w "(0, 1, 0)" "''grass''" "Fin 0" "Fin 20" "Fin 0"] ok
    by blast
  also have "\<dots> = {(0, 0, 0), (0, 1, 0)}"
    by (auto simp: sd_add_block_def sd_stone_world_def within_render_0 is_exposed_def
        split: if_splits)
  finally show ?thesis using ok stale ex by blast
qed

end
